theory Spec2Isabelle
  imports Main "HOL-Library.Sublist"
begin

text \<open>
  The analysis engine of the Barrel Cellar extension, as its tree-data providers
  implement it:
  \<^item> \<^verbatim>\<open>BarrelFilesProvider\<close> (\<^verbatim>\<open>src/barrel.treeview.ts\<close>): module resolution with the
    memo table \<^verbatim>\<open>pathCache\<close>, \<^verbatim>\<open>parseBarrel\<close>, barrel discovery and the reverse scan;
  \<^item> the cached \<^verbatim>\<open>BarrelViewProvider\<close>: the Syntax Cache \<^verbatim>\<open>sourceFileCache\<close>, its
    watcher callbacks, the declaration counters and the barrel branch of
    \<^verbatim>\<open>getChildren\<close>;
  \<^item> the uncached \<^verbatim>\<open>BarrelViewProvider\<close> that came before it: its
    \<^verbatim>\<open>checkBarrelFile\<close>.
  Module state (the two caches) is passed in and returned; what a call throws is the
  \<open>Inl\<close> of its result.
\<close>

section \<open>Paths (node:path, POSIX flavour)\<close>

text \<open>
  The providers build every path with \<^verbatim>\<open>path.join\<close>, \<^verbatim>\<open>path.dirname\<close>,
  \<^verbatim>\<open>path.basename\<close>, \<^verbatim>\<open>path.extname\<close> and \<^verbatim>\<open>path.resolve\<close>. They are
  modelled after Node's POSIX implementation: a path is a string, \<open>/\<close> is the only
  separator, and \<^verbatim>\<open>join\<close> normalises its result (empty and \<open>.\<close> segments are
  dropped, \<open>..\<close> removes the segment before it).
\<close>

fun splitPath :: "string \<Rightarrow> string list" where
  "splitPath [] = [[]]"
| "splitPath (c # cs) =
     (if c = CHR ''/'' then [] # splitPath cs
      else (case splitPath cs of [] \<Rightarrow> [[c]] | s # ss \<Rightarrow> (c # s) # ss))"

text \<open>
  \<^verbatim>\<open>normalizeString(path, allowAboveRoot)\<close>: \<open>res\<close> holds the segments kept so far,
  last one first.
\<close>

fun normalizeString :: "bool \<Rightarrow> string list \<Rightarrow> string list \<Rightarrow> string list" where
  "normalizeString allowAboveRoot res [] = rev res"
| "normalizeString allowAboveRoot res (s # ss) =
     (if s = [] \<or> s = ''.'' then normalizeString allowAboveRoot res ss
      else if s = ''..'' then
        (case res of
           [] \<Rightarrow> normalizeString allowAboveRoot (if allowAboveRoot then [''..''] else []) ss
         | t # ts \<Rightarrow>
             if t = ''..''
             then normalizeString allowAboveRoot (if allowAboveRoot then ''..'' # res else res) ss
             else normalizeString allowAboveRoot ts ss)
      else normalizeString allowAboveRoot (s # res) ss)"

fun joinWith :: "string \<Rightarrow> string list \<Rightarrow> string" where
  "joinWith sep [] = []"
| "joinWith sep [s] = s"
| "joinWith sep (s # t # ss) = s @ sep @ joinWith sep (t # ss)"

definition normalize_path :: "string \<Rightarrow> string" where
  "normalize_path p =
     (if p = [] then ''.''
      else
        let isAbsolute = (hd p = CHR ''/'');
            trailingSeparator = (last p = CHR ''/'');
            body = joinWith ''/'' (normalizeString (\<not> isAbsolute) [] (splitPath p))
        in if body = []
           then (if isAbsolute then ''/'' else if trailingSeparator then ''./'' else ''.'')
           else (if isAbsolute then ''/'' else []) @ body @ (if trailingSeparator then ''/'' else []))"

definition path_join :: "string list \<Rightarrow> string" where
  "path_join args =
     (let joined = joinWith ''/'' (filter (\<lambda>a. a \<noteq> []) args)
      in if joined = [] then ''.'' else normalize_path joined)"

text \<open>
  \<^verbatim>\<open>path.resolve\<close> walks its arguments from the right until the path is absolute and
  falls back on the working directory, which is the root \<open>/\<close> of the modelled tree.
\<close>

fun resolveArgs :: "string list \<Rightarrow> string" where
  "resolveArgs [] = ''/''"
| "resolveArgs (a # as) =
     (if a = [] then resolveArgs as
      else if hd a = CHR ''/'' then a
      else resolveArgs as @ ''/'' @ a)"

definition path_resolve :: "string list \<Rightarrow> string" where
  "path_resolve args =
     ''/'' @ joinWith ''/'' (normalizeString False [] (splitPath (resolveArgs (rev args))))"

definition path_dirname :: "string \<Rightarrow> string" where
  "path_dirname p =
     (if p = [] then ''.''
      else
        let hasRoot = (hd p = CHR ''/'');
            r = dropWhile (\<lambda>c. c \<noteq> CHR ''/'') (dropWhile (\<lambda>c. c = CHR ''/'') (rev (tl p)))
        in if r = [] then (if hasRoot then ''/'' else ''.'')
           else if hasRoot \<and> tl r = [] then ''//''
           else hd p # rev (tl r))"

definition path_basename :: "string \<Rightarrow> string" where
  "path_basename p =
     rev (takeWhile (\<lambda>c. c \<noteq> CHR ''/'') (dropWhile (\<lambda>c. c = CHR ''/'') (rev p)))"

definition path_extname :: "string \<Rightarrow> string" where
  "path_extname p =
     (let b = path_basename p;
          e = rev (takeWhile (\<lambda>c. c \<noteq> CHR ''.'') (rev b))
      in if CHR ''.'' \<notin> set b \<or> b = ''..'' \<or> length e + 1 = length b then []
         else CHR ''.'' # e)"

text \<open>JavaScript's \<^verbatim>\<open>String.prototype.endsWith\<close> and \<^verbatim>\<open>includes\<close>.\<close>

definition endsWith :: "string \<Rightarrow> string \<Rightarrow> bool" where
  "endsWith s suf = suffix suf s"

definition includes_str :: "string \<Rightarrow> string \<Rightarrow> bool" where
  "includes_str s sub = sublist sub s"

definition quoted :: "char \<Rightarrow> string \<Rightarrow> string" where
  "quoted q s = q # s @ [q]"

text \<open>\<^verbatim>\<open>s.replace(/\.d\.ts$/, '')\<close>\<close>

definition stripDts :: "string \<Rightarrow> string" where
  "stripDts s = (if endsWith s ''.d.ts'' then take (length s - 5) s else s)"

section \<open>The file system (node:fs)\<close>

text \<open>
  The disk is a finite tree. A regular file holds its text; a locked file is a regular
  file the process may stat but not read. The names of a directory are distinct; each
  is one segment (not empty, no separator, neither \<open>.\<close> nor \<open>..\<close>). The root is
  also the working directory.
\<close>

datatype fsnode = File string | LockedFile | Dir "(string \<times> fsnode) list"

datatype fs_error = ENOENT | EACCES | EISDIR | ENOTDIR | ParserThrew

text \<open>
  Path resolution as the operating system does it, one segment after the other. The
  first argument holds the node reached and the directories above it, nearest first.
  An empty segment (a leading, doubled or trailing separator) and \<open>.\<close> stay where
  they are, \<open>..\<close> goes one directory up (the root is its own parent), a name goes
  down. Nothing can follow a regular file: any further segment, a trailing separator
  too, is \<open>ENOTDIR\<close>. A name that is missing in a directory is \<open>ENOENT\<close>.
\<close>

fun walkPath :: "fsnode list \<Rightarrow> string list \<Rightarrow> fs_error + fsnode" where
  "walkPath [] ss = Inl ENOENT"
| "walkPath (n # up) [] = Inr n"
| "walkPath (n # up) (s # ss) =
     (case n of
        Dir es \<Rightarrow>
          if s = [] \<or> s = ''.'' then walkPath (n # up) ss
          else if s = ''..'' then walkPath (if up = [] then [n] else up) ss
          else (case map_of es s of
                  None \<Rightarrow> Inl ENOENT
                | Some c \<Rightarrow> walkPath (c # n # up) ss)
      | _ \<Rightarrow> Inl ENOTDIR)"

text \<open>\<^verbatim>\<open>fs.statSync\<close>: the node of the path, or what it throws. The empty path names nothing.\<close>

definition statSync :: "fsnode \<Rightarrow> string \<Rightarrow> fs_error + fsnode" where
  "statSync fs p = (if p = [] then Inl ENOENT else walkPath [fs] (splitPath p))"

definition existsSync :: "fsnode \<Rightarrow> string \<Rightarrow> bool" where
  "existsSync fs p = (case statSync fs p of Inl e \<Rightarrow> False | Inr n \<Rightarrow> True)"

definition readFileSync :: "fsnode \<Rightarrow> string \<Rightarrow> fs_error + string" where
  "readFileSync fs p =
     (case statSync fs p of
        Inl e \<Rightarrow> Inl e
      | Inr (File content) \<Rightarrow> Inr content
      | Inr LockedFile \<Rightarrow> Inl EACCES
      | Inr (Dir es) \<Rightarrow> Inl EISDIR)"

section \<open>The syntax tree (typescript)\<close>

text \<open>
  A \<^verbatim>\<open>ts.Node\<close> with the properties the providers read: its kind, its modifiers,
  \<^verbatim>\<open>isTypeOnly\<close>, \<^verbatim>\<open>exportClause\<close>, \<^verbatim>\<open>importClause\<close>, \<^verbatim>\<open>moduleSpecifier\<close>, and the
  children \<^verbatim>\<open>ts.forEachChild\<close> visits, in order. \<^verbatim>\<open>ts.createSourceFile\<close> is a
  parameter of the model: it maps a file name and a text to the tree of the file, or to
  \<open>None\<close> where it throws.
\<close>

datatype syntax_kind =
    SourceFile | ExportDeclaration | ExportAssignment | ImportDeclaration
  | ImportEqualsDeclaration | EnumDeclaration | TypeAliasDeclaration | InterfaceDeclaration
  | ClassDeclaration | FunctionDeclaration | VariableStatement | ModuleDeclaration
  | OtherModifiable | OtherSyntax

datatype modifier = ExportKeyword | DefaultKeyword | DeclareKeyword | OtherModifier

datatype export_clause = NamedExports "string list" | NamespaceExport string

datatype import_clause = ImportClause bool

text \<open>
  A module specifier: a string literal with its \<^verbatim>\<open>text\<close> (the value) and its source
  text (what \<^verbatim>\<open>getText()\<close> returns, quotes and escape sequences as written), or any
  other expression with its source text.
\<close>

datatype expression = StringLiteral string string | OtherExpression string

datatype node =
  Node (kind: syntax_kind) (modifiers: "modifier list") (isTypeOnly: bool)
       (exportClause: "export_clause option") (importClause: "import_clause option")
       (moduleSpecifier: "expression option") (children: "node list")

type_synonym parser = "string \<Rightarrow> string \<Rightarrow> node option"

definition isExportDeclaration :: "node \<Rightarrow> bool" where
  "isExportDeclaration n = (kind n = ExportDeclaration)"

definition isExportAssignment :: "node \<Rightarrow> bool" where
  "isExportAssignment n = (kind n = ExportAssignment)"

definition isImportDeclaration :: "node \<Rightarrow> bool" where
  "isImportDeclaration n = (kind n = ImportDeclaration)"

definition isImportEqualsDeclaration :: "node \<Rightarrow> bool" where
  "isImportEqualsDeclaration n = (kind n = ImportEqualsDeclaration)"

definition isEnumDeclaration :: "node \<Rightarrow> bool" where
  "isEnumDeclaration n = (kind n = EnumDeclaration)"

definition isTypeAliasDeclaration :: "node \<Rightarrow> bool" where
  "isTypeAliasDeclaration n = (kind n = TypeAliasDeclaration)"

definition isInterfaceDeclaration :: "node \<Rightarrow> bool" where
  "isInterfaceDeclaration n = (kind n = InterfaceDeclaration)"

text \<open>
  \<^verbatim>\<open>ts.canHaveModifiers\<close>: the statement and declaration kinds that carry modifiers.
  A source file and the nodes under \<open>OtherSyntax\<close> (tokens, literals, clauses,
  blocks) cannot.
\<close>

definition canHaveModifiers :: "node \<Rightarrow> bool" where
  "canHaveModifiers n = (kind n \<noteq> SourceFile \<and> kind n \<noteq> OtherSyntax)"

text \<open>
  \<^verbatim>\<open>ts.canHaveModifiers(node) && ts.getModifiers(node)?.some(m => m.kind === ExportKeyword)\<close>
\<close>

definition hasExportKeyword :: "node \<Rightarrow> bool" where
  "hasExportKeyword n = (canHaveModifiers n \<and> list_ex (\<lambda>m. m = ExportKeyword) (modifiers n))"

text \<open>
  Nodes without a role of their own in the providers: a token, an identifier or a
  literal (a leaf), and a clause or list node with its children.
\<close>

text \<open>A string literal written between single quotes, with no escape sequence.\<close>

definition stringLiteral :: "string \<Rightarrow> expression" where
  "stringLiteral s = StringLiteral s (quoted (CHR 0x27) s)"

definition leaf :: node where
  "leaf = Node OtherSyntax [] False None None None []"

definition inner :: "node list \<Rightarrow> node" where
  "inner cs = Node OtherSyntax [] False None None None cs"

section \<open>The Syntax Cache (BarrelViewProvider, cached variant)\<close>

type_synonym source_file_cache = "string \<rightharpoonup> node"

text \<open>
  \<^verbatim>\<open>cacheSourceFile\<close>: the read and the parse stand in one \<^verbatim>\<open>try\<close>; whatever throws,
  the \<^verbatim>\<open>catch\<close> deletes the record of the path.
\<close>

definition cacheSourceFile :: "parser \<Rightarrow> fsnode \<Rightarrow> source_file_cache \<Rightarrow> string \<Rightarrow> source_file_cache" where
  "cacheSourceFile createSourceFile fs sourceFileCache filePath =
     (case readFileSync fs filePath of
        Inl e \<Rightarrow> sourceFileCache(filePath := None)
      | Inr content \<Rightarrow>
          (case createSourceFile filePath content of
             None \<Rightarrow> sourceFileCache(filePath := None)
           | Some sourceFile \<Rightarrow> sourceFileCache(filePath \<mapsto> sourceFile)))"

definition removeSourceFileFromCache :: "source_file_cache \<Rightarrow> string \<Rightarrow> source_file_cache" where
  "removeSourceFileFromCache sourceFileCache filePath = sourceFileCache(filePath := None)"

section \<open>Barrel detection\<close>

text \<open>
  \<^verbatim>\<open>checkBarrelFile\<close> of the cached provider: a cache miss is \<open>false\<close>; otherwise the
  flag is set by every top-level export declaration, whether or not it names a module.
\<close>

definition checkBarrelFile :: "source_file_cache \<Rightarrow> string \<Rightarrow> bool" where
  "checkBarrelFile sourceFileCache filePath =
     (case sourceFileCache filePath of
        None \<Rightarrow> False
      | Some sourceFile \<Rightarrow>
          fold (\<lambda>n isBarrelFile. if isExportDeclaration n then True else isBarrelFile)
            (children sourceFile) False)"

text \<open>
  \<^verbatim>\<open>checkBarrelFile\<close> of the uncached provider: it reads and parses the file itself
  (either may throw) and asks for a module specifier as well.
\<close>

definition checkBarrelFile_uncached :: "parser \<Rightarrow> fsnode \<Rightarrow> string \<Rightarrow> fs_error + bool" where
  "checkBarrelFile_uncached createSourceFile fs filePath =
     (case readFileSync fs filePath of
        Inl e \<Rightarrow> Inl e
      | Inr content \<Rightarrow>
          (case createSourceFile filePath content of
             None \<Rightarrow> Inl ParserThrew
           | Some sourceFile \<Rightarrow>
               Inr (fold (\<lambda>n isBarrelFile.
                            if isExportDeclaration n \<and> moduleSpecifier n \<noteq> None then True
                            else isBarrelFile)
                      (children sourceFile) False)))"

section \<open>Declaration classifier (BarrelViewProvider, cached variant)\<close>

text \<open>
  \<^verbatim>\<open>getExportSymbolCounts\<close> returns two arrays, \<^verbatim>\<open>value\<close> and \<^verbatim>\<open>type\<close>; each holds one
  number per export statement, the count of symbols of that statement.
\<close>

record export_counts =
  valueCounts :: "nat list"
  typeCounts :: "nat list"

definition pushValue :: "nat \<Rightarrow> export_counts \<Rightarrow> export_counts" where
  "pushValue c acc = acc\<lparr>valueCounts := valueCounts acc @ [c]\<rparr>"

definition pushType :: "nat \<Rightarrow> export_counts \<Rightarrow> export_counts" where
  "pushType c acc = acc\<lparr>typeCounts := typeCounts acc @ [c]\<rparr>"

definition handleExportDeclaration :: "node \<Rightarrow> export_counts \<Rightarrow> export_counts" where
  "handleExportDeclaration n acc =
     (let isType = isTypeOnly n in
      case exportClause n of
        Some (NamedExports elements) \<Rightarrow>
          (let count = length elements in
           if isType then pushType count acc else pushValue count acc)
      | _ \<Rightarrow> if isType then pushType 1 acc else pushValue 1 acc)"

definition handleExportKeyword :: "node \<Rightarrow> export_counts \<Rightarrow> export_counts" where
  "handleExportKeyword n acc =
     (if isEnumDeclaration n then pushValue 1 acc
      else if isTypeAliasDeclaration n \<or> isInterfaceDeclaration n then pushType 1 acc
      else pushValue 1 acc)"

text \<open>The visit of one node, before \<^verbatim>\<open>ts.forEachChild(node, countExports)\<close> descends.\<close>

definition countExports_here :: "node \<Rightarrow> export_counts \<Rightarrow> export_counts" where
  "countExports_here n acc =
     (if isExportDeclaration n then handleExportDeclaration n acc
      else if isExportAssignment n then pushValue 1 acc
      else if hasExportKeyword n then handleExportKeyword n acc
      else acc)"

fun countExports :: "node \<Rightarrow> export_counts \<Rightarrow> export_counts" where
  "countExports (Node k ms t ec ic sp cs) acc =
     fold countExports cs (countExports_here (Node k ms t ec ic sp cs) acc)"

definition getExportSymbolCounts :: "source_file_cache \<Rightarrow> string \<Rightarrow> export_counts" where
  "getExportSymbolCounts sourceFileCache filePath =
     (case sourceFileCache filePath of
        None \<Rightarrow> \<lparr>valueCounts = [], typeCounts = []\<rparr>
      | Some sourceFile \<Rightarrow> countExports sourceFile \<lparr>valueCounts = [], typeCounts = []\<rparr>)"

text \<open>
  \<^verbatim>\<open>getNumberOfExports(filePath, typeOnly)\<close>, the older counter, still used to decide
  whether a directory has a barrel index. Its walk is the same; the bucket test differs.
\<close>

definition numberOfExports_here :: "bool \<Rightarrow> node \<Rightarrow> nat \<Rightarrow> nat" where
  "numberOfExports_here typeOnly n exportCount =
     (if isExportDeclaration n then
        (let isType = isTypeOnly n in
         if (if typeOnly then isType else \<not> isType) then
           (case exportClause n of
              Some (NamedExports elements) \<Rightarrow> exportCount + length elements
            | _ \<Rightarrow> exportCount + 1)
         else exportCount)
      else if isExportAssignment n then
        (if \<not> typeOnly then exportCount + 1 else exportCount)
      else if hasExportKeyword n then
        (let isType = (isTypeAliasDeclaration n \<or> isInterfaceDeclaration n \<or> isEnumDeclaration n) in
         if (if typeOnly then isType else \<not> isType) then exportCount + 1 else exportCount)
      else exportCount)"

fun numberOfExports_walk :: "bool \<Rightarrow> node \<Rightarrow> nat \<Rightarrow> nat" where
  "numberOfExports_walk typeOnly (Node k ms t ec ic sp cs) exportCount =
     fold (numberOfExports_walk typeOnly) cs
       (numberOfExports_here typeOnly (Node k ms t ec ic sp cs) exportCount)"

definition getNumberOfExports :: "source_file_cache \<Rightarrow> string \<Rightarrow> bool \<Rightarrow> nat" where
  "getNumberOfExports sourceFileCache filePath typeOnly =
     (case sourceFileCache filePath of
        None \<Rightarrow> 0
      | Some sourceFile \<Rightarrow> numberOfExports_walk typeOnly sourceFile 0)"

definition countImports_here :: "bool \<Rightarrow> node \<Rightarrow> nat \<Rightarrow> nat" where
  "countImports_here typeOnly n importCount =
     (if isImportDeclaration n then
        (let isType = (case importClause n of None \<Rightarrow> False | Some (ImportClause b) \<Rightarrow> b) in
         if (if typeOnly then isType else \<not> isType) then importCount + 1 else importCount)
      else if isImportEqualsDeclaration n then
        (if \<not> typeOnly then importCount + 1 else importCount)
      else importCount)"

fun countImports :: "bool \<Rightarrow> node \<Rightarrow> nat \<Rightarrow> nat" where
  "countImports typeOnly (Node k ms t ec ic sp cs) importCount =
     fold (countImports typeOnly) cs (countImports_here typeOnly (Node k ms t ec ic sp cs) importCount)"

definition getNumberOfImports :: "source_file_cache \<Rightarrow> string \<Rightarrow> bool \<Rightarrow> nat" where
  "getNumberOfImports sourceFileCache filePath typeOnly =
     (case sourceFileCache filePath of
        None \<Rightarrow> 0
      | Some sourceFile \<Rightarrow> countImports typeOnly sourceFile 0)"

text \<open>
  The numbers a \<^verbatim>\<open>TreeItem\<close> of a file shows (the \<^verbatim>\<open>else\<close> branch of its constructor):
  the symbol count sums the arrays, the value and type counts are their lengths.
\<close>

record file_stats =
  exportSymbolCount :: nat
  valueExportCount :: nat
  typeExportCount :: nat
  importSymbolCount :: nat
  valueImportCount :: nat
  typeImportCount :: nat

definition TreeItem_stats :: "source_file_cache \<Rightarrow> string \<Rightarrow> file_stats" where
  "TreeItem_stats sourceFileCache filePath =
     (let expCounts = getExportSymbolCounts sourceFileCache filePath in
      \<lparr>exportSymbolCount = sum_list (valueCounts expCounts) + sum_list (typeCounts expCounts),
       valueExportCount = length (valueCounts expCounts),
       typeExportCount = length (typeCounts expCounts),
       importSymbolCount = getNumberOfImports sourceFileCache filePath False
                           + getNumberOfImports sourceFileCache filePath True,
       valueImportCount = getNumberOfImports sourceFileCache filePath False,
       typeImportCount = getNumberOfImports sourceFileCache filePath True\<rparr>)"

text \<open>
  \<^verbatim>\<open>hasIndex\<close> of the directory listing: a directory is kept when its \<^verbatim>\<open>index.ts\<close>
  exists and \<^verbatim>\<open>getNumberOfExports\<close> counts a value export in it.
\<close>

definition hasIndex :: "fsnode \<Rightarrow> source_file_cache \<Rightarrow> string \<Rightarrow> bool" where
  "hasIndex fs sourceFileCache filePath =
     (existsSync fs (path_join [filePath, ''index.ts''])
      \<and> getNumberOfExports sourceFileCache (path_join [filePath, ''index.ts'']) False > 0)"

section \<open>Module resolution and barrel expansion (BarrelFilesProvider)\<close>

definition extensionPriority :: "string list" where
  "extensionPriority = [''.ts'', ''.tsx'', ''.d.ts'', ''.patch.ts'']"

text \<open>
  \<^verbatim>\<open>pathCache\<close>, a module-level \<^verbatim>\<open>Map<string, string | undefined>\<close>: a key that is
  present maps to the path found, or to \<^verbatim>\<open>undefined\<close> when nothing was found.
\<close>

type_synonym path_cache = "string \<rightharpoonup> string option"

definition possiblePaths :: "string \<Rightarrow> string \<Rightarrow> string list" where
  "possiblePaths baseDir specifier =
     concat (map (\<lambda>ext. [path_join [baseDir, specifier @ ext],
                         path_join [baseDir, specifier, ''index'' @ ext]])
               extensionPriority)"

definition resolveModulePath ::
  "fsnode \<Rightarrow> path_cache \<Rightarrow> string \<Rightarrow> string \<Rightarrow> string option \<times> path_cache" where
  "resolveModulePath fs pathCache baseDir specifier =
     (let cacheKey = path_join [baseDir, specifier] in
      case pathCache cacheKey of
        Some cached \<Rightarrow> (cached, pathCache)
      | None \<Rightarrow>
          (case find (existsSync fs) (possiblePaths baseDir specifier) of
             Some p \<Rightarrow> (Some p, pathCache(cacheKey \<mapsto> Some p))
           | None \<Rightarrow> (None, pathCache(cacheKey \<mapsto> None))))"

record ExportedModuleInfo =
  label :: string
  path :: string
  directory :: string
  extension :: string
  info_isTypeOnly :: bool
  moduleName :: string
  modulePath :: string

record BarrelFile =
  barrelPath :: string
  exports :: "ExportedModuleInfo list"

text \<open>
  The callback of \<^verbatim>\<open>sourceFile.forEachChild\<close> in \<^verbatim>\<open>parseBarrel\<close>. The state is the
  memo table and the \<^verbatim>\<open>exports\<close> array. \<^verbatim>\<open>if (resolvedPath)\<close> is false for
  \<^verbatim>\<open>undefined\<close> and for the empty string.
\<close>

definition parseBarrel_visit ::
  "fsnode \<Rightarrow> string \<Rightarrow> node \<Rightarrow> path_cache \<times> ExportedModuleInfo list
     \<Rightarrow> path_cache \<times> ExportedModuleInfo list" where
  "parseBarrel_visit fs barrelDir n st =
     (case st of (pathCache, exports_acc) \<Rightarrow>
        (if isExportDeclaration n then
           (case moduleSpecifier n of
              Some (StringLiteral modulePath_text sourceText) \<Rightarrow>
                (case resolveModulePath fs pathCache barrelDir modulePath_text of
                   (Some resolvedPath, pathCache') \<Rightarrow>
                     if resolvedPath = [] then (pathCache', exports_acc)
                     else (pathCache',
                           exports_acc @
                             [\<lparr>label = path_basename modulePath_text,
                               path = resolvedPath,
                               directory = path_dirname resolvedPath,
                               extension = path_extname resolvedPath,
                               info_isTypeOnly = isTypeOnly n,
                               moduleName = stripDts modulePath_text,
                               modulePath = stripDts resolvedPath\<rparr>])
                 | (None, pathCache') \<Rightarrow> (pathCache', exports_acc))
            | _ \<Rightarrow> (pathCache, exports_acc))
         else (pathCache, exports_acc)))"

text \<open>
  \<^verbatim>\<open>parseBarrel\<close>: the read and the parse are not guarded, so what they throw reaches
  the caller. The result carries the memo table as the call leaves it.
\<close>

definition parseBarrel ::
  "parser \<Rightarrow> fsnode \<Rightarrow> path_cache \<Rightarrow> string \<Rightarrow> path_cache \<times> (fs_error + BarrelFile)" where
  "parseBarrel createSourceFile fs pathCache filePath =
     (case readFileSync fs filePath of
        Inl e \<Rightarrow> (pathCache, Inl e)
      | Inr sourceText \<Rightarrow>
          (case createSourceFile filePath sourceText of
             None \<Rightarrow> (pathCache, Inl ParserThrew)
           | Some sourceFile \<Rightarrow>
               (let barrelDir = path_dirname filePath;
                    st = fold (parseBarrel_visit fs barrelDir) (children sourceFile) (pathCache, [])
                in (fst st, Inr \<lparr>barrelPath = filePath, exports = snd st\<rparr>))))"

text \<open>
  \<^verbatim>\<open>collectBarrelFiles(directory)\<close>: the loop over \<^verbatim>\<open>fs.readdirSync(directory)\<close> runs
  over the entries of the directory's node; \<^verbatim>\<open>fs.statSync(filePath).isDirectory()\<close> is
  the case of the entry's node. \<^verbatim>\<open>parseBarrel\<close> always returns an object, so every
  candidate is pushed.
\<close>

fun collectBarrelFiles ::
  "parser \<Rightarrow> fsnode \<Rightarrow> string \<Rightarrow> (string \<times> fsnode) list \<Rightarrow> path_cache \<times> BarrelFile list
     \<Rightarrow> path_cache \<times> (fs_error + BarrelFile list)" where
  "collectBarrelFiles createSourceFile fs dir [] st = (fst st, Inr (snd st))"
| "collectBarrelFiles createSourceFile fs dir ((file, n) # rest) st =
     (let filePath = path_join [dir, file] in
      case n of
        Dir es \<Rightarrow>
          (case collectBarrelFiles createSourceFile fs filePath es st of
             (pathCache', Inl e) \<Rightarrow> (pathCache', Inl e)
           | (pathCache', Inr barrelFiles') \<Rightarrow>
               collectBarrelFiles createSourceFile fs dir rest (pathCache', barrelFiles'))
      | _ \<Rightarrow>
          if endsWith file ''index.ts'' then
            (case parseBarrel createSourceFile fs (fst st) filePath of
               (pathCache', Inl e) \<Rightarrow> (pathCache', Inl e)
             | (pathCache', Inr barrelFile) \<Rightarrow>
                 collectBarrelFiles createSourceFile fs dir rest
                   (pathCache', snd st @ [barrelFile]))
          else collectBarrelFiles createSourceFile fs dir rest st)"

text \<open>The loop over the workspace folders; \<^verbatim>\<open>readdirSync\<close> of a folder may throw.\<close>

fun collectFolders ::
  "parser \<Rightarrow> fsnode \<Rightarrow> string list \<Rightarrow> path_cache \<times> BarrelFile list
     \<Rightarrow> path_cache \<times> (fs_error + BarrelFile list)" where
  "collectFolders createSourceFile fs [] st = (fst st, Inr (snd st))"
| "collectFolders createSourceFile fs (folder # rest) st =
     (case statSync fs folder of
        Inl e \<Rightarrow> (fst st, Inl e)
      | Inr (Dir es) \<Rightarrow>
          (case collectBarrelFiles createSourceFile fs folder es st of
             (pathCache', Inl e) \<Rightarrow> (pathCache', Inl e)
           | (pathCache', Inr barrelFiles') \<Rightarrow>
               collectFolders createSourceFile fs rest (pathCache', barrelFiles'))
      | Inr _ \<Rightarrow> (fst st, Inl ENOTDIR))"

section \<open>Reverse references (BarrelFilesProvider)\<close>

text \<open>
  \<^verbatim>\<open>content.includes(`'${barrelPath}'`) || content.includes(`"${barrelPath}"`)\<close>
\<close>

definition mentions :: "string \<Rightarrow> string \<Rightarrow> bool" where
  "mentions content barrelPath_text =
     (includes_str content (quoted (CHR 0x27) barrelPath_text)
      \<or> includes_str content (quoted (CHR 0x22) barrelPath_text))"

text \<open>
  \<^verbatim>\<open>searchFiles(directory)\<close>: every directory is entered; a file is read when its name
  ends with \<open>.ts\<close>, and the read is not guarded.
\<close>

fun searchFiles ::
  "string \<Rightarrow> string \<Rightarrow> (string \<times> fsnode) list \<Rightarrow> string list \<Rightarrow> fs_error + string list" where
  "searchFiles barrelPath_text dir [] filesUsingBarrel = Inr filesUsingBarrel"
| "searchFiles barrelPath_text dir ((file, n) # rest) filesUsingBarrel =
     (let filePath = path_join [dir, file] in
      case n of
        Dir es \<Rightarrow>
          (case searchFiles barrelPath_text filePath es filesUsingBarrel of
             Inl e \<Rightarrow> Inl e
           | Inr found \<Rightarrow> searchFiles barrelPath_text dir rest found)
      | File content \<Rightarrow>
          if endsWith file ''.ts'' \<and> mentions content barrelPath_text
          then searchFiles barrelPath_text dir rest (filesUsingBarrel @ [filePath])
          else searchFiles barrelPath_text dir rest filesUsingBarrel
      | LockedFile \<Rightarrow>
          if endsWith file ''.ts'' then Inl EACCES
          else searchFiles barrelPath_text dir rest filesUsingBarrel)"

fun searchFolders ::
  "fsnode \<Rightarrow> string \<Rightarrow> string list \<Rightarrow> string list \<Rightarrow> fs_error + string list" where
  "searchFolders fs barrelPath_text [] filesUsingBarrel = Inr filesUsingBarrel"
| "searchFolders fs barrelPath_text (folder # rest) filesUsingBarrel =
     (case statSync fs folder of
        Inl e \<Rightarrow> Inl e
      | Inr (Dir es) \<Rightarrow>
          (case searchFiles barrelPath_text folder es filesUsingBarrel of
             Inl e \<Rightarrow> Inl e
           | Inr found \<Rightarrow> searchFolders fs barrelPath_text rest found)
      | Inr _ \<Rightarrow> Inl ENOTDIR)"

definition findFilesUsingBarrel ::
  "fsnode \<Rightarrow> string list option \<Rightarrow> string \<Rightarrow> fs_error + string list" where
  "findFilesUsingBarrel fs workspaceFolders barrelPath_text =
     (case workspaceFolders of
        None \<Rightarrow> Inr []
      | Some folders \<Rightarrow> searchFolders fs barrelPath_text folders [])"

text \<open>
  \<^verbatim>\<open>getChildren(element?)\<close> of \<^verbatim>\<open>BarrelFilesProvider\<close>: without an element it lists the
  barrels of the workspace; with one it lists the element's exports, or the files that
  mention it when it has none.
\<close>

definition getChildren ::
  "parser \<Rightarrow> fsnode \<Rightarrow> string list option \<Rightarrow> path_cache \<Rightarrow> BarrelFile option
     \<Rightarrow> path_cache \<times> (fs_error + BarrelFile list)" where
  "getChildren createSourceFile fs workspaceFolders pathCache element =
     (case workspaceFolders of
        None \<Rightarrow> (pathCache, Inr [])
      | Some folders \<Rightarrow>
          (case element of
             Some el \<Rightarrow>
               if exports el = [] then
                 (case findFilesUsingBarrel fs workspaceFolders (barrelPath el) of
                    Inl e \<Rightarrow> (pathCache, Inl e)
                  | Inr found \<Rightarrow>
                      (pathCache, Inr (map (\<lambda>filePath. \<lparr>barrelPath = filePath, exports = []\<rparr>) found)))
               else
                 (pathCache, Inr (map (\<lambda>exp. \<lparr>barrelPath = path exp, exports = []\<rparr>) (exports el)))
           | None \<Rightarrow> collectFolders createSourceFile fs folders (pathCache, [])))"

section \<open>File-change notifications\<close>

datatype watch_event = DidChange string | DidCreate string | DidDelete string

text \<open>
  The watcher callbacks of the cached \<^verbatim>\<open>BarrelViewProvider\<close>: a change or a creation
  re-caches the file, a deletion removes it from the cache (each then fires a refresh).
\<close>

definition BarrelViewProvider_watch ::
  "parser \<Rightarrow> fsnode \<Rightarrow> source_file_cache \<Rightarrow> watch_event \<Rightarrow> source_file_cache" where
  "BarrelViewProvider_watch createSourceFile fs sourceFileCache ev =
     (case ev of
        DidChange uri \<Rightarrow> cacheSourceFile createSourceFile fs sourceFileCache uri
      | DidCreate uri \<Rightarrow> cacheSourceFile createSourceFile fs sourceFileCache uri
      | DidDelete uri \<Rightarrow> removeSourceFileFromCache sourceFileCache uri)"

text \<open>
  The watcher callbacks of \<^verbatim>\<open>BarrelFilesProvider\<close>: each is \<^verbatim>\<open>() => this.refresh()\<close>,
  which fires the tree-data event and writes no state.
\<close>

definition BarrelFilesProvider_watch :: "path_cache \<Rightarrow> watch_event \<Rightarrow> path_cache" where
  "BarrelFilesProvider_watch pathCache ev = pathCache"

section \<open>Barrel expansion (BarrelViewProvider)\<close>

text \<open>
  \<^verbatim>\<open>node.moduleSpecifier.getText().replace(/['"]/g, "")\<close>: the source text of the
  specifier with every quote character removed.
\<close>

definition getText :: "expression \<Rightarrow> string" where
  "getText e =
     (case e of StringLiteral s sourceText \<Rightarrow> sourceText | OtherExpression src \<Rightarrow> src)"

definition stripQuotes :: "string \<Rightarrow> string" where
  "stripQuotes s = filter (\<lambda>c. c \<noteq> CHR 0x27 \<and> c \<noteq> CHR 0x22) s"

text \<open>
  The resolution written out in \<^verbatim>\<open>getChildren\<close> of \<^verbatim>\<open>BarrelViewProvider\<close>: a
  specifier that ends with \<open>.ts\<close> or \<open>.tsx\<close> is kept as it is; otherwise the first
  extension of the list whose file exists is appended. No memo table, no index probe.
\<close>

definition resolveExportPath :: "fsnode \<Rightarrow> string \<Rightarrow> string \<Rightarrow> string" where
  "resolveExportPath fs elementDirectory exportPath0 =
     (let exportPath =
            (if \<not> (endsWith exportPath0 ''.ts'' \<or> endsWith exportPath0 ''.tsx'') then
               (case find (\<lambda>ext. existsSync fs
                                   (path_join [path_dirname elementDirectory, exportPath0 @ ext]))
                       extensionPriority of
                  Some ext \<Rightarrow> exportPath0 @ ext
                | None \<Rightarrow> exportPath0)
             else exportPath0)
      in path_resolve [path_dirname elementDirectory, exportPath])"

definition barrelItems_visit :: "fsnode \<Rightarrow> string \<Rightarrow> node \<Rightarrow> string list \<Rightarrow> string list" where
  "barrelItems_visit fs elementDirectory n items =
     (if isExportDeclaration n \<and> moduleSpecifier n \<noteq> None then
        (let exportFilePath =
               resolveExportPath fs elementDirectory
                 (stripQuotes (getText (the (moduleSpecifier n))))
         in if existsSync fs exportFilePath then items @ [exportFilePath] else items)
      else items)"

text \<open>
  The branch \<^verbatim>\<open>element?.isBarrel\<close> of \<^verbatim>\<open>getChildren\<close>: the barrel is read and parsed
  afresh (not guarded), and each item is the path of an export target that exists.
\<close>

definition barrelItems :: "parser \<Rightarrow> fsnode \<Rightarrow> string \<Rightarrow> fs_error + string list" where
  "barrelItems createSourceFile fs elementDirectory =
     (case readFileSync fs elementDirectory of
        Inl e \<Rightarrow> Inl e
      | Inr content \<Rightarrow>
          (case createSourceFile elementDirectory content of
             None \<Rightarrow> Inl ParserThrew
           | Some sourceFile \<Rightarrow>
               Inr (fold (barrelItems_visit fs elementDirectory) (children sourceFile) [])))"

section \<open>Runs of the engine\<close>

text \<open>
  A run of \<^verbatim>\<open>BarrelFilesProvider\<close>: a sequence of expansions, each with the disk as
  it is at that moment. Between two queries the disk may change in any way; the
  watcher callbacks write no state, so only the queries move the memo table.
\<close>

fun expandBarrel_run :: "parser \<Rightarrow> path_cache \<Rightarrow> (fsnode \<times> string) list \<Rightarrow> path_cache" where
  "expandBarrel_run createSourceFile pathCache [] = pathCache"
| "expandBarrel_run createSourceFile pathCache ((fs, filePath) # rest) =
     expandBarrel_run createSourceFile (fst (parseBarrel createSourceFile fs pathCache filePath)) rest"

text \<open>The paths of the entries of a result; none when the query threw.\<close>

definition entryPaths :: "path_cache \<times> (fs_error + BarrelFile) \<Rightarrow> string list" where
  "entryPaths r = (case snd r of Inl e \<Rightarrow> [] | Inr barrel \<Rightarrow> map path (exports barrel))"

section \<open>The pkg scenario\<close>

text \<open>
  The directory \<open>/pkg\<close> of the specification's scenario, before and after
  \<open>a.ts\<close> is deleted, and the trees \<^verbatim>\<open>ts.createSourceFile\<close> yields for its three
  texts.
\<close>

definition pkg_index_text :: string where
  "pkg_index_text = ''export * from './a'; export type { B } from './b';''"

definition pkg_fs :: fsnode where
  "pkg_fs = Dir [(''pkg'', Dir [(''a.ts'', File ''export const a = 1;''),
                               (''b.ts'', File ''export type B = number;''),
                               (''index.ts'', File pkg_index_text)])]"

definition pkg_fs_deleted :: fsnode where
  "pkg_fs_deleted = Dir [(''pkg'', Dir [(''b.ts'', File ''export type B = number;''),
                                       (''index.ts'', File pkg_index_text)])]"

definition pkg_index_tree :: node where
  "pkg_index_tree =
     Node SourceFile [] False None None None
       [Node ExportDeclaration [] False None None (Some (stringLiteral ''./a'')) [leaf],
        Node ExportDeclaration [] True (Some (NamedExports [''B''])) None
          (Some (stringLiteral ''./b'')) [inner [inner [leaf]], leaf],
        leaf]"

definition pkg_parser :: parser where
  "pkg_parser fileName content =
     (if content = pkg_index_text then Some pkg_index_tree
      else if content = ''export const a = 1;'' then
        Some (Node SourceFile [] False None None None
                [Node VariableStatement [ExportKeyword] False None None None
                   [leaf, inner [inner [leaf, leaf]]],
                 leaf])
      else if content = ''export type B = number;'' then
        Some (Node SourceFile [] False None None None
                [Node TypeAliasDeclaration [ExportKeyword] False None None None
                   [leaf, leaf, leaf],
                 leaf])
      else Some (Node SourceFile [] False None None None [leaf]))"

section \<open>The x scenario\<close>

text \<open>
  A directory \<open>/pkg\<close> that first holds \<open>x.d.ts\<close> only, and later \<open>x.ts\<close> as well.
\<close>

definition x_fs_dts :: fsnode where
  "x_fs_dts = Dir [(''pkg'', Dir [(''x.d.ts'', File ''export declare const x: number;'')])]"

definition x_fs_both :: fsnode where
  "x_fs_both = Dir [(''pkg'', Dir [(''x.d.ts'', File ''export declare const x: number;''),
                                  (''x.ts'', File ''export const x = 1;'')])]"

section \<open>Export-bearing and import-bearing nodes\<close>

text \<open>
  The notions the statements about the classifier need, in the specification's words: a
  node is export-bearing when it is an export declaration, an export assignment or a
  declaration with the \<^verbatim>\<open>export\<close> modifier; it is import-bearing when it is an import
  declaration or an import-equals declaration. \<open>anywhere P n\<close> holds when \<open>P\<close> holds
  of \<open>n\<close> or of a node below it.
\<close>

definition exportBearing :: "node \<Rightarrow> bool" where
  "exportBearing n = (isExportDeclaration n \<or> isExportAssignment n \<or> hasExportKeyword n)"

definition importBearing :: "node \<Rightarrow> bool" where
  "importBearing n = (isImportDeclaration n \<or> isImportEqualsDeclaration n)"

fun anywhere :: "(node \<Rightarrow> bool) \<Rightarrow> node \<Rightarrow> bool" where
  "anywhere P (Node k ms t ec ic sp cs) =
     (P (Node k ms t ec ic sp cs) \<or> list_ex (anywhere P) cs)"

section \<open>The enum scenario\<close>

text \<open>
  A directory \<open>/ws/lib\<close> whose \<open>index.ts\<close> is \<^verbatim>\<open>export enum E { A }\<close>, and the tree
  of that text: one enum declaration with the \<^verbatim>\<open>export\<close> modifier (its children are
  the modifier, the name and the member), and the end-of-file token.
\<close>

definition enum_fs :: fsnode where
  "enum_fs = Dir [(''ws'', Dir [(''lib'', Dir [(''index.ts'', File ''export enum E { A }'')])])]"

definition enum_tree :: node where
  "enum_tree =
     Node SourceFile [] False None None None
       [Node EnumDeclaration [ExportKeyword] False None None None [leaf, leaf, inner [leaf]],
        leaf]"

definition enum_cache :: source_file_cache where
  "enum_cache = cacheSourceFile (\<lambda>fileName content. Some enum_tree) enum_fs Map.empty
                  ''/ws/lib/index.ts''"

section \<open>The types scenario\<close>

text \<open>
  A module \<open>/ws/types.ts\<close> with an import, the type-only re-export
  \<^verbatim>\<open>export type { A, B } from './b'\<close> and a type-only import, as cached.
\<close>

definition types_reexport :: node where
  "types_reexport =
     Node ExportDeclaration [] True (Some (NamedExports [''A'', ''B''])) None
       (Some (stringLiteral ''./b'')) [inner [inner [leaf], inner [leaf]], leaf]"

definition types_tree :: node where
  "types_tree =
     Node SourceFile [] False None None None
       [Node ImportDeclaration [] False None (Some (ImportClause False))
          (Some (stringLiteral ''./x'')) [inner [leaf], leaf],
        types_reexport,
        Node ImportDeclaration [] False None (Some (ImportClause True))
          (Some (stringLiteral ''./y'')) [inner [leaf], leaf],
        leaf]"

definition types_cache :: source_file_cache where
  "types_cache = [''/ws/types.ts'' \<mapsto> types_tree]"

section \<open>Files under a directory\<close>






section \<open>The deps, locked and myindex scenarios\<close>


text \<open>A workspace whose \<open>index.ts\<close> the process may not read.\<close>

definition locked_fs :: fsnode where
  "locked_fs = Dir [(''ws'', Dir [(''index.ts'', LockedFile)])]"

text \<open>
  A workspace with a file named \<open>myindex.ts\<close> that re-exports from \<open>./a\<close>, and the
  tree of its text.
\<close>

definition myindex_fs :: fsnode where
  "myindex_fs =
     Dir [(''ws'', Dir [(''a.ts'', File ''export const a = 1;''),
                       (''myindex.ts'', File ''export * from './a';'')])]"

definition myindex_parser :: parser where
  "myindex_parser fileName content =
     (if content = ''export * from './a';'' then
        Some (Node SourceFile [] False None None None
                [Node ExportDeclaration [] False None None (Some (stringLiteral ''./a'')) [leaf],
                 leaf])
      else Some (Node SourceFile [] False None None None
                   [Node VariableStatement [ExportKeyword] False None None None
                      [leaf, inner [inner [leaf, leaf]]],
                    leaf]))"

section \<open>Barrel detection: results\<close>

lemma fold_flag:
  "fold (\<lambda>n b. if P n then True else b) xs b0 = (b0 \<or> list_ex P xs)"
  by (induction xs arbitrary: b0) auto

lemma checkBarrelFile_iff:
  "checkBarrelFile sourceFileCache filePath =
     (\<exists>sourceFile. sourceFileCache filePath = Some sourceFile
        \<and> list_ex isExportDeclaration (children sourceFile))"
  unfolding checkBarrelFile_def fold_flag by (auto split: option.splits)

lemma checkBarrelFile_uncached_iff:
  "readFileSync fs filePath = Inr content \<Longrightarrow> createSourceFile filePath content = Some sourceFile \<Longrightarrow>
   checkBarrelFile_uncached createSourceFile fs filePath =
     Inr (list_ex (\<lambda>n. isExportDeclaration n \<and> moduleSpecifier n \<noteq> None) (children sourceFile))"
  unfolding checkBarrelFile_uncached_def fold_flag by simp

lemma checkBarrelFile_no_exports:
  "sourceFileCache filePath = Some sourceFile \<Longrightarrow>
   list_all (\<lambda>n. \<not> isExportDeclaration n) (children sourceFile) \<Longrightarrow>
   \<not> checkBarrelFile sourceFileCache filePath"
  by (simp add: checkBarrelFile_iff list_all_iff list_ex_iff)

text \<open>
  C1. A module is reported as a barrel iff one of its top-level declarations is a
  re-export that names a source module. The cached \<^verbatim>\<open>checkBarrelFile\<close> does not ask
  for the module specifier: for the module \<^verbatim>\<open>export { a };\<close>, whose only declaration
  is an export declaration without a \<^verbatim>\<open>from\<close> clause, it answers \<open>true\<close>, where the
  uncached \<^verbatim>\<open>checkBarrelFile\<close> answers \<open>false\<close>.
\<close>

theorem C1_checkBarrelFile_local_export_list:
  "checkBarrelFile
     [''/ws/index.ts'' \<mapsto>
        Node SourceFile [] False None None None
          [Node ExportDeclaration [] False (Some (NamedExports [''a''])) None None
             [inner [inner [leaf]]],
           leaf]]
     ''/ws/index.ts'' = True
   \<and> checkBarrelFile_uncached
       (\<lambda>fileName content. Some (Node SourceFile [] False None None None
          [Node ExportDeclaration [] False (Some (NamedExports [''a''])) None None
             [inner [inner [leaf]]],
           leaf]))
       (Dir [(''ws'', Dir [(''index.ts'', File ''export { a };'')])])
       ''/ws/index.ts'' = Inr False"
  by (simp add: checkBarrelFile_def checkBarrelFile_uncached_def isExportDeclaration_def
      readFileSync_def statSync_def leaf_def)

section \<open>Barrel expansion: results\<close>

lemma resolveModulePath_result:
  assumes "resolveModulePath fs c b s = (Some p, c')"
  shows "existsSync fs p \<or> c (path_join [b, s]) = Some (Some p)"
  using assms
  by (auto simp: resolveModulePath_def Let_def find_Some_iff split: option.splits)

lemma resolveModulePath_cache:
  assumes "resolveModulePath fs c b s = (r, c')" and "c' k = Some (Some p)"
  shows "c k = Some (Some p) \<or> existsSync fs p"
  using assms
  by (auto simp: resolveModulePath_def Let_def find_Some_iff split: option.splits if_splits)

text \<open>
  One visited declaration keeps the invariant: every memoized path and every entry
  pushed so far exists on the disk of the query, or satisfies \<open>Q\<close> (it was known
  before).
\<close>

lemma parseBarrel_visit_inv:
  assumes "parseBarrel_visit fs d n (c, es) = (c', es')"
    and "\<And>k p. c k = Some (Some p) \<Longrightarrow> existsSync fs p \<or> Q p"
    and "\<And>e. e \<in> set es \<Longrightarrow> existsSync fs (path e) \<or> Q (path e)"
  shows "(\<forall>k p. c' k = Some (Some p) \<longrightarrow> existsSync fs p \<or> Q p)
       \<and> (\<forall>e \<in> set es'. existsSync fs (path e) \<or> Q (path e))"
proof (cases "isExportDeclaration n")
  case False
  with assms show ?thesis by (auto simp: parseBarrel_visit_def)
next
  case True
  show ?thesis
  proof (cases "moduleSpecifier n")
    case None
    with True assms show ?thesis by (auto simp: parseBarrel_visit_def)
  next
    case (Some sp)
    show ?thesis
    proof (cases sp)
      case (OtherExpression src)
      with Some True assms show ?thesis by (auto simp: parseBarrel_visit_def)
    next
      case (StringLiteral t raw)
      obtain r c1 where R: "resolveModulePath fs c d t = (r, c1)"
        by (cases "resolveModulePath fs c d t")
      have C1: "\<And>k p. c1 k = Some (Some p) \<Longrightarrow> existsSync fs p \<or> Q p"
        using resolveModulePath_cache[OF R] assms(2) by blast
      show ?thesis
      proof (cases r)
        case None
        with R True Some StringLiteral assms(1) have "c' = c1" "es' = es"
          by (auto simp: parseBarrel_visit_def)
        with C1 assms(3) show ?thesis by blast
      next
        case (Some p)
        have P: "existsSync fs p \<or> Q p"
          using resolveModulePath_result[of fs c d t p c1] R Some assms(2) by blast
        from R True \<open>moduleSpecifier n = Some sp\<close> StringLiteral assms(1) Some
        have "c' = c1" and "\<forall>e \<in> set es'. e \<in> set es \<or> path e = p"
          by (auto simp: parseBarrel_visit_def split: if_splits)
        with C1 P assms(3) show ?thesis by blast
      qed
    qed
  qed
qed

lemma parseBarrel_fold_inv:
  assumes "fold (parseBarrel_visit fs d) ns (c, es) = (c', es')"
    and "\<And>k p. c k = Some (Some p) \<Longrightarrow> existsSync fs p \<or> Q p"
    and "\<And>e. e \<in> set es \<Longrightarrow> existsSync fs (path e) \<or> Q (path e)"
  shows "(\<forall>k p. c' k = Some (Some p) \<longrightarrow> existsSync fs p \<or> Q p)
       \<and> (\<forall>e \<in> set es'. existsSync fs (path e) \<or> Q (path e))"
  using assms
proof (induction ns arbitrary: c es)
  case Nil
  then show ?case by auto
next
  case (Cons n ns)
  obtain c1 es1 where V: "parseBarrel_visit fs d n (c, es) = (c1, es1)"
    by (cases "parseBarrel_visit fs d n (c, es)")
  from parseBarrel_visit_inv[where Q=Q, OF V] Cons.prems(2) Cons.prems(3)
  have I: "\<And>k p. c1 k = Some (Some p) \<Longrightarrow> existsSync fs p \<or> Q p"
    "\<And>e. e \<in> set es1 \<Longrightarrow> existsSync fs (path e) \<or> Q (path e)" by blast+
  from Cons.prems(1) V have "fold (parseBarrel_visit fs d) ns (c1, es1) = (c', es')" by simp
  from Cons.IH[OF this] I show ?case by blast
qed

lemma parseBarrel_inv:
  assumes "\<forall>k p. c k = Some (Some p) \<longrightarrow> existsSync fs p \<or> Q p"
  shows "(\<forall>k p. fst (parseBarrel ps fs c f) k = Some (Some p) \<longrightarrow> existsSync fs p \<or> Q p)
       \<and> (\<forall>p \<in> set (entryPaths (parseBarrel ps fs c f)). existsSync fs p \<or> Q p)"
proof (cases "readFileSync fs f")
  case (Inl e)
  with assms show ?thesis by (auto simp: parseBarrel_def entryPaths_def)
next
  case (Inr src)
  show ?thesis
  proof (cases "ps f src")
    case None
    with Inr assms show ?thesis by (auto simp: parseBarrel_def entryPaths_def)
  next
    case (Some sf)
    obtain c' es' where
      F: "fold (parseBarrel_visit fs (path_dirname f)) (children sf) (c, []) = (c', es')"
      by (cases "fold (parseBarrel_visit fs (path_dirname f)) (children sf) (c, [])")
    from parseBarrel_fold_inv[where Q=Q, OF F] assms have
      "(\<forall>k p. c' k = Some (Some p) \<longrightarrow> existsSync fs p \<or> Q p)
       \<and> (\<forall>e \<in> set es'. existsSync fs (path e) \<or> Q (path e))" by simp
    with Inr Some F show ?thesis by (auto simp: parseBarrel_def entryPaths_def Let_def)
  qed
qed

text \<open>With an empty memo table, every entry of an expansion exists on disk.\<close>

lemma parseBarrel_fresh_entries_exist:
  assumes "p \<in> set (entryPaths (parseBarrel createSourceFile fs Map.empty filePath))"
  shows "existsSync fs p"
  using parseBarrel_inv[where Q="\<lambda>p. False" and c=Map.empty and fs=fs
      and ps=createSourceFile and f=filePath] assms
  by simp

text \<open>
  The expansion of \<^verbatim>\<open>BarrelViewProvider\<close> keeps no memo table and tests
  \<^verbatim>\<open>fs.existsSync\<close> at every query: in every state, every item it returns exists
  on disk.
\<close>

lemma barrelItems_visit_exist:
  assumes "\<forall>p \<in> set items. existsSync fs p"
  shows "\<forall>p \<in> set (barrelItems_visit fs d n items). existsSync fs p"
  using assms by (auto simp: barrelItems_visit_def Let_def)

lemma barrelItems_fold_exist:
  assumes "\<forall>p \<in> set items. existsSync fs p"
  shows "\<forall>p \<in> set (fold (barrelItems_visit fs d) ns items). existsSync fs p"
  using assms
proof (induction ns arbitrary: items)
  case Nil
  then show ?case by simp
next
  case (Cons n ns)
  from barrelItems_visit_exist[OF Cons.prems]
  have "\<forall>p \<in> set (barrelItems_visit fs d n items). existsSync fs p" .
  from Cons.IH[OF this] show ?case by simp
qed

lemma barrelItems_exist:
  assumes "barrelItems createSourceFile fs elementDirectory = Inr items" and "p \<in> set items"
  shows "existsSync fs p"
proof -
  from assms(1) obtain sourceFile where
    "items = fold (barrelItems_visit fs elementDirectory) (children sourceFile) []"
    by (auto simp: barrelItems_def split: sum.splits option.splits)
  with barrelItems_fold_exist[of "[]" fs elementDirectory "children sourceFile"] assms(2)
  show ?thesis by simp
qed

lemma pkg_run_paths:
  "entryPaths (parseBarrel pkg_parser pkg_fs_deleted
       (expandBarrel_run pkg_parser Map.empty [(pkg_fs, ''/pkg/index.ts'')]) ''/pkg/index.ts'')
   = [''/pkg/a.ts'', ''/pkg/b.ts'']"
  by code_simp

lemma pkg_deleted_missing: "\<not> existsSync pkg_fs_deleted ''/pkg/a.ts''"
  by code_simp

lemma pkg_fresh_paths:
  "entryPaths (parseBarrel pkg_parser pkg_fs_deleted Map.empty ''/pkg/index.ts'')
   = [''/pkg/b.ts'']"
  by code_simp

text \<open>
  C2. No entry of an expansion may name a path that is not on disk at the time of the
  query. \<^verbatim>\<open>parseBarrel\<close> breaks this through the memo table of
  \<^verbatim>\<open>resolveModulePath\<close>, which nothing ever invalidates: in the pkg scenario a first
  expansion memoizes \<open>/pkg/a.ts\<close>; after the file is deleted, the next expansion of
  \<open>/pkg/index.ts\<close> still returns the entry, although the path is not on disk. With an
  empty memo table the same query returns \<open>/pkg/b.ts\<close> only.
\<close>

theorem C2_stale_entry_after_delete:
  "entryPaths (parseBarrel pkg_parser pkg_fs_deleted
       (expandBarrel_run pkg_parser Map.empty [(pkg_fs, ''/pkg/index.ts'')]) ''/pkg/index.ts'')
     = [''/pkg/a.ts'', ''/pkg/b.ts'']
   \<and> \<not> existsSync pkg_fs_deleted ''/pkg/a.ts''
   \<and> entryPaths (parseBarrel pkg_parser pkg_fs_deleted Map.empty ''/pkg/index.ts'')
     = [''/pkg/b.ts'']"
  using pkg_run_paths pkg_deleted_missing pkg_fresh_paths by simp

section \<open>Module resolution: results\<close>

lemma splitPath_nonempty: "splitPath p \<noteq> []"
  by (induction p) (auto split: list.splits)

lemma splitPath_append_sep: "splitPath (a @ CHR ''/'' # r) = splitPath a @ splitPath r"
proof (induction a)
  case Nil
  show ?case by simp
next
  case (Cons c cs)
  obtain s ss where S: "splitPath cs = s # ss"
    using splitPath_nonempty[of cs] by (cases "splitPath cs") auto
  with Cons show ?case by simp
qed

lemma normalizeString_append:
  "normalizeString a res (xs @ ys) = normalizeString a (rev (normalizeString a res xs)) ys"
proof (induction xs arbitrary: res)
  case Nil
  show ?case by simp
next
  case (Cons s ss)
  show ?case
  proof (cases res)
    case Nil
    then show ?thesis using Cons.IH by simp
  next
    case (Cons t ts)
    then show ?thesis using Cons.IH by simp
  qed
qed

lemma joinWith_snoc:
  "joinWith sep (xs @ [y]) = (if xs = [] then y else joinWith sep xs @ sep @ y)"
  by (induction sep xs rule: joinWith.induct) auto

lemma path_join_empty_base: "path_join [[], ''./x.ts''] = ''x.ts''"
  by code_simp

text \<open>Whatever the base directory, joining \<open>./x.ts\<close> to it ends in the segment \<open>x.ts\<close>.\<close>

lemma path_join_dot_x_ts:
  "\<exists>v. path_join [baseDir, ''./x.ts''] = v @ ''x.ts''"
proof (cases "baseDir = []")
  case True
  with path_join_empty_base show ?thesis by simp
next
  case False
  let ?abs = "hd baseDir = CHR ''/''"
  let ?N = "normalizeString (\<not> ?abs) [] (splitPath baseDir)"
  have sp: "splitPath (baseDir @ ''/./x.ts'') = splitPath baseDir @ [''.'', ''x.ts'']"
    using splitPath_append_sep[of baseDir "''./x.ts''"] by simp
  have ns: "normalizeString (\<not> ?abs) [] (splitPath (baseDir @ ''/./x.ts'')) = ?N @ [''x.ts'']"
    unfolding sp normalizeString_append by simp
  have j: "joinWith ''/'' (filter (\<lambda>a. a \<noteq> []) [baseDir, ''./x.ts'']) = baseDir @ ''/./x.ts''"
    using False by simp
  have "path_join [baseDir, ''./x.ts''] = normalize_path (baseDir @ ''/./x.ts'')"
    unfolding path_join_def j Let_def by simp
  also have "\<dots> = (if ?abs then ''/'' else []) @ joinWith ''/'' (?N @ [''x.ts''])"
  proof -
    have h: "hd (baseDir @ ''/./x.ts'') = hd baseDir" using False by simp
    have l: "last (baseDir @ ''/./x.ts'') \<noteq> CHR ''/''" by simp
    have ne: "joinWith ''/'' (?N @ [''x.ts'']) \<noteq> []" by (simp add: joinWith_snoc)
    show ?thesis
      unfolding normalize_path_def Let_def h ns using l ne by simp
  qed
  finally have "path_join [baseDir, ''./x.ts'']
      = (if ?abs then ''/'' else []) @ joinWith ''/'' (?N @ [''x.ts''])" .
  then show ?thesis unfolding joinWith_snoc by (cases "?N = []"; cases ?abs) auto
qed

lemma path_join_dot_x_ts_suffix:
  "endsWith (path_join [baseDir, ''./x.ts'']) ''x.ts''
   \<and> \<not> endsWith (path_join [baseDir, ''./x.ts'']) ''.d.ts''"
proof -
  obtain v where v: "path_join [baseDir, ''./x.ts''] = v @ ''x.ts''"
    using path_join_dot_x_ts by blast
  have "\<not> suffix ''.d.ts'' (v @ ''x.ts'')"
  proof
    assume "suffix ''.d.ts'' (v @ ''x.ts'')"
    then obtain w where "v @ ''x.ts'' = w @ ''.d.ts''" by (auto simp: suffix_def)
    then have "(v @ ''x'') @ ''.ts'' = (w @ ''.d'') @ ''.ts''" by simp
    then have e: "v @ ''x'' = w @ ''.d''" by (simp only: append_same_eq)
    have "last (v @ ''x'') = CHR ''x''" "last (w @ ''.d'') = CHR ''d''" by simp_all
    with e show False by simp
  qed
  with v show ?thesis by (simp add: endsWith_def suffix_def)
qed

text \<open>The candidates, in the order they are probed.\<close>

lemma possiblePaths_order:
  "possiblePaths baseDir specifier =
     [path_join [baseDir, specifier @ ''.ts''], path_join [baseDir, specifier, ''index.ts''],
      path_join [baseDir, specifier @ ''.tsx''], path_join [baseDir, specifier, ''index.tsx''],
      path_join [baseDir, specifier @ ''.d.ts''], path_join [baseDir, specifier, ''index.d.ts''],
      path_join [baseDir, specifier @ ''.patch.ts''],
      path_join [baseDir, specifier, ''index.patch.ts'']]"
  by (simp add: possiblePaths_def extensionPriority_def)

lemma resolveModulePath_miss:
  assumes "pathCache (path_join [baseDir, specifier]) = None"
  shows "fst (resolveModulePath fs pathCache baseDir specifier)
           = find (existsSync fs) (possiblePaths baseDir specifier)"
  using assms by (simp add: resolveModulePath_def Let_def split: option.splits)

lemma resolveModulePath_hit:
  assumes "pathCache (path_join [baseDir, specifier]) = Some r"
  shows "resolveModulePath fs pathCache baseDir specifier = (r, pathCache)"
  using assms by (simp add: resolveModulePath_def)

lemma resolveModulePath_first_candidate:
  assumes "pathCache (path_join [baseDir, specifier]) = None"
    and "existsSync fs (path_join [baseDir, specifier @ ''.ts''])"
  shows "fst (resolveModulePath fs pathCache baseDir specifier)
           = Some (path_join [baseDir, specifier @ ''.ts''])"
  using assms by (simp add: resolveModulePath_miss possiblePaths_order)

text \<open>
  On a miss of the memo table, a base directory that holds \<open>x.ts\<close> resolves
  \<open>./x\<close> to it, a path that ends in \<open>x.ts\<close> and not in \<open>.d.ts\<close>.
\<close>

lemma resolveModulePath_miss_prefers_source:
  assumes "pathCache (path_join [baseDir, ''./x'']) = None"
    and "existsSync fs (path_join [baseDir, ''./x.ts''])"
  shows "fst (resolveModulePath fs pathCache baseDir ''./x'') = Some (path_join [baseDir, ''./x.ts''])
       \<and> endsWith (path_join [baseDir, ''./x.ts'']) ''x.ts''
       \<and> \<not> endsWith (path_join [baseDir, ''./x.ts'']) ''.d.ts''"
  using resolveModulePath_first_candidate[of pathCache baseDir "''./x''" fs] assms
    path_join_dot_x_ts_suffix[of baseDir] by simp

text \<open>
  The resolution written out in \<^verbatim>\<open>BarrelViewProvider.getChildren\<close> keeps no memo
  table: whenever \<open>x.ts\<close> exists beside the barrel, \<open>./x\<close> resolves to it.
\<close>

lemma dot_x_has_no_extension:
  "\<not> (endsWith ''./x'' ''.ts'' \<or> endsWith ''./x'' ''.tsx'')"
  by code_simp

lemma resolveExportPath_prefers_source:
  assumes "existsSync fs (path_join [path_dirname elementDirectory, ''./x.ts''])"
  shows "resolveExportPath fs elementDirectory ''./x''
           = path_resolve [path_dirname elementDirectory, ''./x.ts'']"
  using assms dot_x_has_no_extension
  by (simp add: resolveExportPath_def extensionPriority_def)

text \<open>
  C4. A directory that holds both \<open>x.ts\<close> and \<open>x.d.ts\<close> must resolve \<open>./x\<close>
  to the source file. \<^verbatim>\<open>resolveModulePath\<close> answers a memoized key before it looks
  at the priority list, and nothing ever invalidates the memo table: in the x scenario
  the key is first resolved while only \<open>x.d.ts\<close> exists; once \<open>x.ts\<close> exists as
  well, resolving \<open>./x\<close> still returns the declaration file. With an empty memo
  table the same call returns \<open>/pkg/x.ts\<close>, and so does the resolution of
  \<^verbatim>\<open>BarrelViewProvider.getChildren\<close> in either state.
\<close>

theorem C4_memoized_declaration_wins:
  "fst (resolveModulePath x_fs_both
          (snd (resolveModulePath x_fs_dts Map.empty ''/pkg'' ''./x'')) ''/pkg'' ''./x'')
     = Some ''/pkg/x.d.ts''
   \<and> existsSync x_fs_both ''/pkg/x.ts'' \<and> existsSync x_fs_both ''/pkg/x.d.ts''
   \<and> fst (resolveModulePath x_fs_both Map.empty ''/pkg'' ''./x'') = Some ''/pkg/x.ts''
   \<and> resolveExportPath x_fs_both ''/pkg/index.ts'' ''./x'' = ''/pkg/x.ts''"
  by code_simp

text \<open>
  C5. A specifier that already ends with a source extension should be tested as it is.
  \<^verbatim>\<open>resolveModulePath\<close> appends an extension to every specifier and never probes the
  specifier itself: in the pkg scenario \<open>./a.ts\<close> names the existing file
  \<open>/pkg/a.ts\<close>, and the resolution finds nothing. The resolution written out in
  \<^verbatim>\<open>BarrelViewProvider.getChildren\<close> keeps such a specifier and finds the file.
\<close>

theorem C5_resolveModulePath_misses_direct_file:
  "existsSync pkg_fs (path_join [''/pkg'', ''./a.ts''])
   \<and> fst (resolveModulePath pkg_fs Map.empty ''/pkg'' ''./a.ts'') = None
   \<and> resolveExportPath pkg_fs ''/pkg/index.ts'' ''./a.ts'' = ''/pkg/a.ts''"
  by code_simp

lemma resolveExportPath_direct:
  assumes "endsWith exportPath0 ''.ts'' \<or> endsWith exportPath0 ''.tsx''"
  shows "resolveExportPath fs elementDirectory exportPath0
           = path_resolve [path_dirname elementDirectory, exportPath0]"
  using assms by (simp add: resolveExportPath_def)

section \<open>Declaration classifier: results\<close>

lemma countExports_none:
  "\<not> anywhere exportBearing n \<Longrightarrow> countExports n acc = acc"
proof (induction n arbitrary: acc)
  case (Node k ms t ec ic sp cs)
  have here: "countExports_here (Node k ms t ec ic sp cs) acc = acc"
    using Node.prems by (simp add: countExports_here_def exportBearing_def)
  have "\<And>a. fold countExports cs a = a"
  proof -
    from Node.prems have "\<forall>c \<in> set cs. \<not> anywhere exportBearing c"
      by (simp add: list_ex_iff)
    with Node.IH have "\<forall>c \<in> set cs. \<forall>a. countExports c a = a" by blast
    then show "\<And>a. fold countExports cs a = a" by (induction cs) auto
  qed
  with here show ?case by simp
qed

lemma fold_countExports_none:
  "list_all (\<lambda>n. \<not> anywhere exportBearing n) ns \<Longrightarrow> fold countExports ns acc = acc"
  by (induction ns arbitrary: acc) (auto simp: countExports_none)

lemma countImports_none:
  "\<not> anywhere importBearing n \<Longrightarrow> countImports b n c = c"
proof (induction n arbitrary: c)
  case (Node k ms t ec ic sp cs)
  have here: "countImports_here b (Node k ms t ec ic sp cs) c = c"
    using Node.prems by (simp add: countImports_here_def importBearing_def)
  have "\<And>a. fold (countImports b) cs a = a"
  proof -
    from Node.prems have "\<forall>c \<in> set cs. \<not> anywhere importBearing c"
      by (simp add: list_ex_iff)
    with Node.IH have "\<forall>x \<in> set cs. \<forall>a. countImports b x a = a" by blast
    then show "\<And>a. fold (countImports b) cs a = a" by (induction cs) auto
  qed
  with here show ?case by simp
qed

lemma fold_countImports_none:
  "list_all (\<lambda>n. \<not> anywhere importBearing n) ns \<Longrightarrow> fold (countImports b) ns c = c"
  by (induction ns arbitrary: c) (auto simp: countImports_none)

lemma countExports_type_only_named:
  assumes "list_all (\<lambda>n. \<not> anywhere exportBearing n) dcs"
  shows "countExports (Node ExportDeclaration dms True (Some (NamedExports elements)) dic dsp dcs) acc
           = pushType (length elements) acc"
  using assms
  by (simp add: countExports_here_def isExportDeclaration_def handleExportDeclaration_def
      fold_countExports_none)

lemma countImports_export_declaration:
  assumes "list_all (\<lambda>n. \<not> anywhere importBearing n) dcs"
  shows "countImports b (Node ExportDeclaration dms ty ec dic dsp dcs) c = c"
  using assms
  by (simp add: countImports_here_def isImportDeclaration_def isImportEqualsDeclaration_def
      fold_countImports_none)

text \<open>
  A module whose only export-bearing node is one type-only re-export with a named list:
  the \<^verbatim>\<open>type\<close> array holds one number, the count of the list.
\<close>

lemma getExportSymbolCounts_one_type_only_named:
  assumes "sourceFileCache filePath =
             Some (Node SourceFile ms t ec ic sp
                     (pre @ [Node ExportDeclaration dms True (Some (NamedExports elements)) dic dsp dcs]
                        @ post))"
    and "list_all (\<lambda>n. \<not> anywhere exportBearing n) (pre @ dcs @ post)"
  shows "getExportSymbolCounts sourceFileCache filePath
           = \<lparr>valueCounts = [], typeCounts = [length elements]\<rparr>"
proof -
  from assms(2) have p: "list_all (\<lambda>n. \<not> anywhere exportBearing n) pre"
    and d: "list_all (\<lambda>n. \<not> anywhere exportBearing n) dcs"
    and q: "list_all (\<lambda>n. \<not> anywhere exportBearing n) post" by simp_all
  have here: "countExports (Node SourceFile ms t ec ic sp cs) acc = fold countExports cs acc"
    for cs acc
    by (simp add: countExports_here_def isExportDeclaration_def isExportAssignment_def
        hasExportKeyword_def canHaveModifiers_def)
  show ?thesis
    using assms(1)
    by (simp add: getExportSymbolCounts_def here fold_countExports_none[OF p]
        fold_countExports_none[OF q] countExports_type_only_named[OF d] pushType_def
        del: countExports.simps)
qed

text \<open>Taking an export declaration out of a module leaves its import counts as they are.\<close>

lemma getNumberOfImports_without_declaration:
  assumes "sourceFileCache filePath =
             Some (Node SourceFile ms t ec ic sp
                     (pre @ [Node ExportDeclaration dms ty dec dic dsp dcs] @ post))"
    and "list_all (\<lambda>n. \<not> anywhere importBearing n) dcs"
  shows "getNumberOfImports sourceFileCache filePath b
           = getNumberOfImports
               (sourceFileCache(filePath \<mapsto> Node SourceFile ms t ec ic sp (pre @ post))) filePath b"
proof -
  have here: "countImports b (Node SourceFile ms t ec ic sp cs) c = fold (countImports b) cs c"
    for cs c
    by (simp add: countImports_here_def isImportDeclaration_def isImportEqualsDeclaration_def)
  show ?thesis
    using assms(1)
    by (simp add: getNumberOfImports_def here countImports_export_declaration[OF assms(2)]
        del: countImports.simps)
qed

text \<open>
  C6, as stated, fails. The type count a \<^verbatim>\<open>TreeItem\<close> shows is the length of the
  \<^verbatim>\<open>type\<close> array, one per type-only export statement: for
  \<^verbatim>\<open>export type { A, B } from './b'\<close> it is 1, not the 2 members of the list.
\<close>

theorem C6_type_count_counterexample:
  "typeExportCount (TreeItem_stats types_cache ''/ws/types.ts'') = 1
   \<and> typeExportCount (TreeItem_stats types_cache ''/ws/types.ts'') \<noteq> length [''A'', ''B'']"
  by code_simp

text \<open>
  C6, amended. For every cached module whose only export-bearing node is one top-level
  re-export with a named list of N members, marked type-only, the statistics report a
  type declaration count of 1 (one unit per type-only export statement), a value
  declaration count of 0 and an export symbol count of N; the three import counts are
  those of the module without the declaration.
\<close>

theorem C6_type_only_named_reexport_stats:
  assumes "sourceFileCache filePath =
             Some (Node SourceFile ms t ec ic sp
                     (pre @ [Node ExportDeclaration dms True (Some (NamedExports elements)) dic dsp dcs]
                        @ post))"
    and "list_all (\<lambda>n. \<not> anywhere exportBearing n) (pre @ dcs @ post)"
    and "list_all (\<lambda>n. \<not> anywhere importBearing n) dcs"
  shows "typeExportCount (TreeItem_stats sourceFileCache filePath) = 1
       \<and> valueExportCount (TreeItem_stats sourceFileCache filePath) = 0
       \<and> exportSymbolCount (TreeItem_stats sourceFileCache filePath) = length elements
       \<and> importSymbolCount (TreeItem_stats sourceFileCache filePath)
           = importSymbolCount (TreeItem_stats
               (sourceFileCache(filePath \<mapsto> Node SourceFile ms t ec ic sp (pre @ post))) filePath)
       \<and> valueImportCount (TreeItem_stats sourceFileCache filePath)
           = valueImportCount (TreeItem_stats
               (sourceFileCache(filePath \<mapsto> Node SourceFile ms t ec ic sp (pre @ post))) filePath)
       \<and> typeImportCount (TreeItem_stats sourceFileCache filePath)
           = typeImportCount (TreeItem_stats
               (sourceFileCache(filePath \<mapsto> Node SourceFile ms t ec ic sp (pre @ post))) filePath)"
proof -
  have e: "getExportSymbolCounts sourceFileCache filePath
             = \<lparr>valueCounts = [], typeCounts = [length elements]\<rparr>"
    using getExportSymbolCounts_one_type_only_named[where pre=pre and post=post and dcs=dcs
        and sourceFileCache=sourceFileCache and filePath=filePath and elements=elements]
      assms(1) assms(2) by blast
  have i: "getNumberOfImports sourceFileCache filePath b
           = getNumberOfImports
               (sourceFileCache(filePath \<mapsto> Node SourceFile ms t ec ic sp (pre @ post))) filePath b"
    for b
    using getNumberOfImports_without_declaration[where pre=pre and post=post and dcs=dcs
        and sourceFileCache=sourceFileCache and filePath=filePath and b=b]
      assms(1) assms(3) by blast
  show ?thesis
    unfolding TreeItem_stats_def Let_def e i by simp
qed

theorem C6_type_only_named_reexport_stats_witness:
  "typeExportCount (TreeItem_stats types_cache ''/ws/types.ts'') = 1
   \<and> valueExportCount (TreeItem_stats types_cache ''/ws/types.ts'') = 0
   \<and> exportSymbolCount (TreeItem_stats types_cache ''/ws/types.ts'') = 2
   \<and> importSymbolCount (TreeItem_stats types_cache ''/ws/types.ts'') = 2"
proof -
  let ?pre = "[Node ImportDeclaration [] False None (Some (ImportClause False))
                 (Some (stringLiteral ''./x'')) [inner [leaf], leaf]]"
  let ?post = "[Node ImportDeclaration [] False None (Some (ImportClause True))
                  (Some (stringLiteral ''./y'')) [inner [leaf], leaf],
                leaf]"
  let ?dcs = "[inner [inner [leaf], inner [leaf]], leaf]"
  have h1: "types_cache ''/ws/types.ts'' =
      Some (Node SourceFile [] False None None None
              (?pre @ [Node ExportDeclaration [] True (Some (NamedExports [''A'', ''B''])) None
                         (Some (stringLiteral ''./b'')) ?dcs] @ ?post))"
    by (simp add: types_cache_def types_tree_def types_reexport_def)
  have h2: "list_all (\<lambda>n. \<not> anywhere exportBearing n) (?pre @ ?dcs @ ?post)"
    by (simp add: exportBearing_def isExportDeclaration_def isExportAssignment_def
        hasExportKeyword_def canHaveModifiers_def leaf_def inner_def)
  have h3: "list_all (\<lambda>n. \<not> anywhere importBearing n) ?dcs"
    by (simp add: importBearing_def isImportDeclaration_def isImportEqualsDeclaration_def
        leaf_def inner_def)
  have i: "importSymbolCount (TreeItem_stats
             (types_cache(''/ws/types.ts'' \<mapsto> Node SourceFile [] False None None None (?pre @ ?post)))
             ''/ws/types.ts'') = 2"
    by code_simp
  from C6_type_only_named_reexport_stats[where pre="?pre" and post="?post" and dcs="?dcs"
      and sourceFileCache=types_cache and filePath="''/ws/types.ts''"
      and elements="[''A'', ''B'']", OF h1 h2 h3] i
  show ?thesis by simp
qed

text \<open>
  An exported declaration is one unit in \<^verbatim>\<open>handleExportKeyword\<close>: a type alias or an
  interface in the \<^verbatim>\<open>type\<close> array, anything else (an enum too) in the \<^verbatim>\<open>value\<close> array.
\<close>

lemma handleExportKeyword_buckets:
  "handleExportKeyword n acc =
     (if isTypeAliasDeclaration n \<or> isInterfaceDeclaration n then pushType 1 acc
      else pushValue 1 acc)"
  by (simp add: handleExportKeyword_def isEnumDeclaration_def isTypeAliasDeclaration_def
      isInterfaceDeclaration_def)

lemma numberOfExports_here_enum:
  assumes "isEnumDeclaration n" and "hasExportKeyword n"
  shows "numberOfExports_here False n c = c \<and> numberOfExports_here True n c = c + 1"
  using assms
  by (simp add: numberOfExports_here_def isEnumDeclaration_def isExportDeclaration_def
      isExportAssignment_def)

text \<open>
  C7. An exported enum is one unit of the value bucket. \<^verbatim>\<open>handleExportKeyword\<close> counts
  it so; \<^verbatim>\<open>getNumberOfExports\<close> puts enums with the type declarations: for the module
  \<^verbatim>\<open>export enum E { A }\<close> it counts no value export and one type export, and the
  directory listing, which keeps a directory when \<^verbatim>\<open>getNumberOfExports\<close> of its
  \<open>index.ts\<close> is positive, drops the directory.
\<close>

theorem C7_getNumberOfExports_enum_is_type:
  "getExportSymbolCounts enum_cache ''/ws/lib/index.ts'' = \<lparr>valueCounts = [1], typeCounts = []\<rparr>
   \<and> getNumberOfExports enum_cache ''/ws/lib/index.ts'' False = 0
   \<and> getNumberOfExports enum_cache ''/ws/lib/index.ts'' True = 1
   \<and> hasIndex enum_fs enum_cache ''/ws/lib'' = False"
  by code_simp

section \<open>Unreadable sources: results\<close>

lemma cacheSourceFile_unreadable:
  assumes "readFileSync fs filePath = Inl e"
  shows "cacheSourceFile createSourceFile fs sourceFileCache filePath
           = sourceFileCache(filePath := None)"
  using assms by (simp add: cacheSourceFile_def)

lemma cacheSourceFile_parser_throws:
  assumes "readFileSync fs filePath = Inr content" and "createSourceFile filePath content = None"
  shows "cacheSourceFile createSourceFile fs sourceFileCache filePath
           = sourceFileCache(filePath := None)"
  using assms by (simp add: cacheSourceFile_def)

lemma cacheSourceFile_readable:
  assumes "readFileSync fs filePath = Inr content"
    and "createSourceFile filePath content = Some sourceFile"
  shows "cacheSourceFile createSourceFile fs sourceFileCache filePath
           = sourceFileCache(filePath \<mapsto> sourceFile)"
  using assms by (simp add: cacheSourceFile_def)

text \<open>A path without a record has no known export or import fact.\<close>

lemma absent_record_no_facts:
  assumes "sourceFileCache filePath = None"
  shows "getExportSymbolCounts sourceFileCache filePath = \<lparr>valueCounts = [], typeCounts = []\<rparr>
       \<and> getNumberOfExports sourceFileCache filePath typeOnly = 0
       \<and> getNumberOfImports sourceFileCache filePath typeOnly = 0
       \<and> checkBarrelFile sourceFileCache filePath = False"
  using assms
  by (simp add: getExportSymbolCounts_def getNumberOfExports_def getNumberOfImports_def
      checkBarrelFile_def)

lemma parseBarrel_raises:
  assumes "readFileSync fs filePath = Inl e"
  shows "parseBarrel createSourceFile fs pathCache filePath = (pathCache, Inl e)"
  using assms by (simp add: parseBarrel_def)

text \<open>
  C8. A missing or unreadable file is to degrade to an absent record and never to an
  exception. \<^verbatim>\<open>cacheSourceFile\<close> does so: it drops the stale record of the deleted
  \<open>/pkg/a.ts\<close>. \<^verbatim>\<open>parseBarrel\<close> and the barrel branch of
  \<^verbatim>\<open>BarrelViewProvider.getChildren\<close> read without a guard: on the deleted file they
  raise, and listing the barrels of a workspace whose \<open>index.ts\<close> is unreadable raises
  out of \<^verbatim>\<open>getChildren\<close>.
\<close>

theorem C8_parseBarrel_raises_on_unreadable:
  "cacheSourceFile pkg_parser pkg_fs_deleted [''/pkg/a.ts'' \<mapsto> pkg_index_tree] ''/pkg/a.ts''
     ''/pkg/a.ts'' = None
   \<and> snd (parseBarrel pkg_parser pkg_fs_deleted Map.empty ''/pkg/a.ts'') = Inl ENOENT
   \<and> barrelItems pkg_parser pkg_fs_deleted ''/pkg/a.ts'' = Inl ENOENT
   \<and> snd (getChildren pkg_parser locked_fs (Some [''/ws'']) Map.empty None) = Inl EACCES"
  by code_simp

section \<open>Reverse references and barrel discovery: results\<close>






text \<open>
  The test of \<^verbatim>\<open>collectBarrelFiles\<close> on an entry that is not a directory: a name that
  ends with \<open>index.ts\<close> is parsed and, when the parse returns, pushed; any other name
  is passed over.
\<close>

lemma collectBarrelFiles_suffix_test:
  assumes "n = File content \<or> n = LockedFile"
  shows "collectBarrelFiles createSourceFile fs dir [(nm, n)] st =
           (if endsWith nm ''index.ts'' then
              (case parseBarrel createSourceFile fs (fst st) (path_join [dir, nm]) of
                 (pathCache', Inl e) \<Rightarrow> (pathCache', Inl e)
               | (pathCache', Inr barrelFile) \<Rightarrow> (pathCache', Inr (snd st @ [barrelFile])))
            else (fst st, Inr (snd st)))"
  using assms by (auto split: prod.splits sum.splits)

text \<open>
  C10. Barrel discovery takes every file whose name ends with \<open>index.ts\<close>: in the
  myindex scenario the file \<open>myindex.ts\<close>, which re-exports from \<open>./a\<close>, is parsed
  and listed as a barrel with its export entry, although its name is not \<open>index.ts\<close>.
\<close>

theorem C10_suffix_test_lists_myindex:
  "snd (getChildren myindex_parser myindex_fs (Some [''/ws'']) Map.empty None)
     = Inr [\<lparr>barrelPath = ''/ws/myindex.ts'',
              exports = [\<lparr>label = ''a'', path = ''/ws/a.ts'', directory = ''/ws'',
                          extension = ''.ts'', info_isTypeOnly = False,
                          moduleName = ''./a'', modulePath = ''/ws/a.ts''\<rparr>]\<rparr>]
   \<and> path_basename ''/ws/myindex.ts'' \<noteq> ''index.ts''"
  by code_simp

section \<open>File-change notifications: results\<close>

text \<open>
  The callbacks of the cached \<^verbatim>\<open>BarrelViewProvider\<close> re-synchronize the record of
  the path: a creation or a change stores what the file parses to now (or drops the
  record when the read or the parse throws), a deletion drops it; the other records
  stay.
\<close>

lemma BarrelViewProvider_watch_resync:
  "BarrelViewProvider_watch createSourceFile fs sourceFileCache (DidCreate uri)
     = sourceFileCache(uri := (case readFileSync fs uri of
                                Inl e \<Rightarrow> None | Inr content \<Rightarrow> createSourceFile uri content))
   \<and> BarrelViewProvider_watch createSourceFile fs sourceFileCache (DidChange uri)
     = sourceFileCache(uri := (case readFileSync fs uri of
                                Inl e \<Rightarrow> None | Inr content \<Rightarrow> createSourceFile uri content))
   \<and> BarrelViewProvider_watch createSourceFile fs sourceFileCache (DidDelete uri)
     = sourceFileCache(uri := None)"
proof -
  have a: "cacheSourceFile createSourceFile fs sourceFileCache uri
     = sourceFileCache(uri := (case readFileSync fs uri of
                                Inl e \<Rightarrow> None | Inr content \<Rightarrow> createSourceFile uri content))"
    by (auto simp: cacheSourceFile_def split: sum.splits option.splits)
  show ?thesis
    by (simp add: BarrelViewProvider_watch_def a removeSourceFileFromCache_def)
qed

text \<open>
  C3. After \<open>onDeleted('/pkg/a.ts')\<close> the expansion of \<open>/pkg/index.ts\<close> must
  yield the entry \<open>/pkg/b.ts\<close> only. The callbacks of \<^verbatim>\<open>BarrelFilesProvider\<close> fire
  a refresh and leave the memo table as it is: with the barrel expanded before the
  deletion, \<^verbatim>\<open>parseBarrel\<close> after the notification still yields both entries. The
  cached \<^verbatim>\<open>BarrelViewProvider\<close> does what is asked: its deletion callback drops the
  record of \<open>/pkg/a.ts\<close>, and its expansion yields \<open>/pkg/b.ts\<close> only, without an
  error.
\<close>

theorem C3_memo_stale_after_onDeleted:
  "entryPaths (parseBarrel pkg_parser pkg_fs_deleted
       (BarrelFilesProvider_watch (fst (parseBarrel pkg_parser pkg_fs Map.empty ''/pkg/index.ts''))
          (DidDelete ''/pkg/a.ts''))
       ''/pkg/index.ts'')
     = [''/pkg/a.ts'', ''/pkg/b.ts'']
   \<and> barrelItems pkg_parser pkg_fs_deleted ''/pkg/index.ts'' = Inr [''/pkg/b.ts'']
   \<and> cacheSourceFile pkg_parser pkg_fs Map.empty ''/pkg/a.ts'' ''/pkg/a.ts'' \<noteq> None
   \<and> BarrelViewProvider_watch pkg_parser pkg_fs_deleted
       (cacheSourceFile pkg_parser pkg_fs Map.empty ''/pkg/a.ts'') (DidDelete ''/pkg/a.ts'')
       ''/pkg/a.ts'' = None"
  by code_simp

end
